theory Spec2Isabelle
  imports Main "HOL-Library.Word"
begin

section \<open>JavaScript strings\<close>

text \<open>
  A JavaScript string is a sequence of 16-bit code units; \<open>length\<close> counts code units
  and a regular expression without the \<open>u\<close> flag matches code unit by code unit.
  String literals of the source are ASCII and are written \<open>js ''...''\<close>.
\<close>

type_synonym jschar = "16 word"
type_synonym jsstring = "jschar list"

definition js :: "string \<Rightarrow> jsstring" where
  "js s = map of_char s"

text \<open>
  The code units that \<open>String.prototype.trim\<close> strips and that \<open>\s\<close> matches:
  the WhiteSpace and LineTerminator productions of ECMAScript (TAB, LF, VT, FF, CR, SP,
  NBSP, U+1680, U+2000..U+200A, LS, PS, U+202F, U+205F, U+3000, BOM).
\<close>

definition is_whitespace :: "jschar \<Rightarrow> bool" where
  "is_whitespace c \<longleftrightarrow>
     c = 0x0009 \<or> c = 0x000A \<or> c = 0x000B \<or> c = 0x000C \<or> c = 0x000D \<or> c = 0x0020 \<or>
     c = 0x00A0 \<or> c = 0x1680 \<or> (0x2000 \<le> c \<and> c \<le> 0x200A) \<or> c = 0x2028 \<or> c = 0x2029 \<or>
     c = 0x202F \<or> c = 0x205F \<or> c = 0x3000 \<or> c = 0xFEFF"

definition trim :: "jsstring \<Rightarrow> jsstring" where
  "trim s = rev (dropWhile is_whitespace (rev (dropWhile is_whitespace s)))"

text \<open>Number-to-string conversion of a template literal, for a non-negative integer.\<close>

fun String_of :: "nat \<Rightarrow> jsstring" where
  "String_of n =
     (if n < 10 then [of_nat (48 + n)] else String_of (n div 10) @ [of_nat (48 + n mod 10)])"

declare String_of.simps [simp del]

section \<open>Regular expressions\<close>

text \<open>
  The fragment of regular expressions the source uses: character classes, sequence and
  \<open>+\<close>. \<open>test\<close> on a pattern anchored by \<open>^\<close> and \<open>$\<close> (no flags) asks whether the
  whole string matches; the matcher takes the derivative of the pattern by each code unit.
\<close>

datatype rexp =
    Zero
  | One
  | Cls "jschar \<Rightarrow> bool"
  | Alt rexp rexp
  | Seq rexp rexp
  | Star rexp

definition Plus :: "rexp \<Rightarrow> rexp" where
  "Plus r = Seq r (Star r)"

definition Chr :: "jschar \<Rightarrow> rexp" where
  "Chr a = Cls (\<lambda>c. c = a)"

fun nullable :: "rexp \<Rightarrow> bool" where
  "nullable Zero = False"
| "nullable One = True"
| "nullable (Cls P) = False"
| "nullable (Alt r s) = (nullable r \<or> nullable s)"
| "nullable (Seq r s) = (nullable r \<and> nullable s)"
| "nullable (Star r) = True"

fun deriv :: "jschar \<Rightarrow> rexp \<Rightarrow> rexp" where
  "deriv c Zero = Zero"
| "deriv c One = Zero"
| "deriv c (Cls P) = (if P c then One else Zero)"
| "deriv c (Alt r s) = Alt (deriv c r) (deriv c s)"
| "deriv c (Seq r s) =
     (if nullable r then Alt (Seq (deriv c r) s) (deriv c s) else Seq (deriv c r) s)"
| "deriv c (Star r) = Seq (deriv c r) (Star r)"

fun test :: "rexp \<Rightarrow> jsstring \<Rightarrow> bool" where
  "test r [] = nullable r"
| "test r (c # cs) = test (deriv c r) cs"

text \<open>The words a pattern denotes, to reason about \<open>test\<close>.\<close>

definition conc :: "jsstring set \<Rightarrow> jsstring set \<Rightarrow> jsstring set" where
  "conc A B = {u @ v | u v. u \<in> A \<and> v \<in> B}"

inductive_set star :: "jsstring set \<Rightarrow> jsstring set" for A :: "jsstring set" where
  star_empty: "[] \<in> star A"
| star_step: "u \<in> A \<Longrightarrow> v \<in> star A \<Longrightarrow> u @ v \<in> star A"

fun lang :: "rexp \<Rightarrow> jsstring set" where
  "lang Zero = {}"
| "lang One = {[]}"
| "lang (Cls P) = {[c] | c. P c}"
| "lang (Alt r s) = lang r \<union> lang s"
| "lang (Seq r s) = conc (lang r) (lang s)"
| "lang (Star r) = star (lang r)"

section \<open>Configuration\<close>

text \<open>\<open>CONTACT_CONFIG\<close>: the constants the validator and the handler read.\<close>

definition SUBMISSION_TIMEOUT :: nat where
  "SUBMISSION_TIMEOUT = 10000"

definition not_space_at :: "jschar \<Rightarrow> bool" where
  "not_space_at c \<longleftrightarrow> \<not> (is_whitespace c \<or> c = of_char CHR ''@'')"

definition EMAIL_PATTERN :: rexp where
  "EMAIL_PATTERN =
     Seq (Plus (Cls not_space_at))
       (Seq (Chr (of_char CHR ''@''))
         (Seq (Plus (Cls not_space_at))
           (Seq (Chr (of_char CHR ''.''))
             (Plus (Cls not_space_at)))))"

definition MIN_MESSAGE_LENGTH :: nat where
  "MIN_MESSAGE_LENGTH = 10"

definition MAX_MESSAGE_LENGTH :: nat where
  "MAX_MESSAGE_LENGTH = 1000"

definition MESSAGES_SUCCESS :: jsstring where
  "MESSAGES_SUCCESS = js ''Thank you for your message! We'' @ [0x27] @ js ''ll get back to you within 24 hours.''"

definition MESSAGES_ERROR :: jsstring where
  "MESSAGES_ERROR = js ''Sorry, there was an error sending your message. Please try again.''"

definition MESSAGES_VALIDATION_ERROR :: jsstring where
  "MESSAGES_VALIDATION_ERROR = js ''Please fix the errors below and try again.''"

definition MESSAGES_NETWORK_ERROR :: jsstring where
  "MESSAGES_NETWORK_ERROR = js ''Network error. Please check your connection and try again.''"

section \<open>The page\<close>

text \<open>
  The four form controls that \<open>validateForm\<close> looks up by id and \<open>validateField\<close>
  distinguishes by name (\<open>name\<close>, \<open>email\<close>, \<open>subject\<close>, \<open>message\<close>), in document order.
  The page's HTML is not among the sources: each control is taken to carry its id as its
  name and to lie in a \<open>.form-group\<close> of its own, which may hold an \<open>.error-message\<close>
  element.
\<close>

datatype field = nameField | emailField | subjectField | messageField

definition form_fields :: "field list" where
  "form_fields = [nameField, emailField, subjectField, messageField]"

record error_message =
  textContent :: jsstring
  aria_live :: "jsstring option"

record form_field =
  field_value :: jsstring
  disabled :: bool
  aria_invalid :: "jsstring option"
  class_error :: bool
  class_success :: bool
  errorElement :: "error_message option"

record button =
  button_disabled :: bool
  class_loading :: bool
  button_text :: jsstring

record character_counter =
  counter_text :: jsstring
  counter_color :: jsstring

datatype notification_type = Success | Error | Info

text \<open>
  One record holds what the code reads and writes: the validator's \<open>errors\<close> map and
  \<open>isValid\<close> flag, the handler's \<open>isSubmitting\<close> flag and \<open>submitButton\<close>, and the
  document (the controls, the character counter, the notification on display, the
  focused control). \<open>in_flight\<close> counts the promises of \<open>submitForm\<close> that have not
  settled yet and \<open>submitForm_calls\<close> all calls of \<open>submitForm\<close>.

  \<open>showNotification\<close> assigns markup to \<open>innerHTML\<close>, so what it does depends on the
  HTML parser of the browser, which is not part of the sources. \<open>parser_finds_close\<close> is
  that parser as far as the code asks it: whether, after the notification template with
  a given message in it has been parsed, \<open>querySelector(".notification-close")\<close>
  finds an element.
\<close>

record page =
  errors :: "field \<rightharpoonup> jsstring"
  isValid :: bool
  isSubmitting :: bool
  submitButton :: "button option"
  form :: "field \<Rightarrow> form_field"
  counter :: "character_counter option"
  notification :: "(jsstring \<times> notification_type) option"
  activeElement :: "field option"
  in_flight :: nat
  submitForm_calls :: nat
  parser_finds_close :: "jsstring \<Rightarrow> bool"

section \<open>ContactFormValidator\<close>

definition addError :: "field \<Rightarrow> jsstring \<Rightarrow> page \<Rightarrow> page" where
  "addError f m s =
     s\<lparr>errors := (errors s)(f \<mapsto> m),
       isValid := False,
       form := (form s)(f := (form s f)
         \<lparr>aria_invalid := Some (js ''true''),
          class_error := True,
          class_success := False,
          errorElement := map_option (\<lambda>e. e\<lparr>textContent := m, aria_live := Some (js ''polite'')\<rparr>)
                            (errorElement (form s f))\<rparr>)\<rparr>"

definition removeError :: "field \<Rightarrow> page \<Rightarrow> page" where
  "removeError f s =
     s\<lparr>errors := (errors s)(f := None),
       form := (form s)(f := (form s f)
         \<lparr>aria_invalid := Some (js ''false''),
          class_error := False,
          class_success := True,
          errorElement := map_option (\<lambda>e. e\<lparr>textContent := []\<rparr>) (errorElement (form s f))\<rparr>)\<rparr>"

text \<open>\<open>!value\<close> for a value that is a string or null: null and the empty string are falsy.\<close>

definition falsy :: "jsstring option \<Rightarrow> bool" where
  "falsy v = (case v of None \<Rightarrow> True | Some t \<Rightarrow> t = [])"

definition validateRequired :: "field \<Rightarrow> jsstring option \<Rightarrow> jsstring \<Rightarrow> page \<Rightarrow> bool \<times> page" where
  "validateRequired f v fieldName s =
     (if falsy v \<or> trim (the v) = [] then (False, addError f (fieldName @ js '' is required'') s)
      else (True, removeError f s))"

definition validateEmail :: "field \<Rightarrow> jsstring option \<Rightarrow> page \<Rightarrow> bool \<times> page" where
  "validateEmail f email s =
     (if falsy email then (False, s)
      else if \<not> test EMAIL_PATTERN (the email)
        then (False, addError f (js ''Please enter a valid email address'') s)
      else (True, removeError f s))"

definition validateMessage :: "field \<Rightarrow> jsstring option \<Rightarrow> page \<Rightarrow> bool \<times> page" where
  "validateMessage f message s =
     (if falsy message then (False, s)
      else if length (the message) < MIN_MESSAGE_LENGTH
        then (False, addError f
               (js ''Message must be at least '' @ String_of MIN_MESSAGE_LENGTH @ js '' characters'') s)
      else if length (the message) > MAX_MESSAGE_LENGTH
        then (False, addError f
               (js ''Message must be less than '' @ String_of MAX_MESSAGE_LENGTH @ js '' characters'') s)
      else (True, removeError f s))"

text \<open>\<open>a && b\<close> on two validations: the second runs only when the first returned true.\<close>

definition and_then :: "(page \<Rightarrow> bool \<times> page) \<Rightarrow> (page \<Rightarrow> bool \<times> page) \<Rightarrow> page \<Rightarrow> bool \<times> page" where
  "and_then a b s = (case a s of (r, s') \<Rightarrow> if r then b s' else (r, s'))"

definition validateForm :: "(field \<rightharpoonup> jsstring) \<Rightarrow> page \<Rightarrow> bool \<times> page" where
  "validateForm formData s =
     (let s0 = s\<lparr>errors := Map.empty, isValid := True\<rparr>;
          s1 = snd (validateRequired nameField (formData nameField) (js ''Name'') s0);
          s2 = snd (and_then (validateRequired emailField (formData emailField) (js ''Email''))
                             (validateEmail emailField (formData emailField)) s1);
          s3 = snd (validateRequired subjectField (formData subjectField) (js ''Subject'') s2);
          s4 = snd (and_then (validateRequired messageField (formData messageField) (js ''Message''))
                             (validateMessage messageField (formData messageField)) s3)
      in (isValid s4, s4))"

section \<open>ContactFormHandler\<close>

text \<open>How a call ends: it returns, or it throws (here always a \<open>TypeError\<close>).\<close>

datatype completion = Returned | Thrown

text \<open>
  \<open>notification.querySelector(".notification-close")\<close> after the template
  \<^verbatim>\<open><span class="notification-message">${message}</span><button class="notification-close" ...>\<close>
  has been assigned to \<open>innerHTML\<close>. Two cases do not depend on the rest of the parser.
  A message without \<open><\<close> is parsed as text (a character reference never consumes a
  \<open><\<close>), so the button of the template is there. A message that starts with
  \<^verbatim>\<open><!--\<close> and has no \<open>>\<close> after it opens a comment that nothing closes (the rest
  of the template has no \<^verbatim>\<open>--\<close>), the button ends up inside the comment and the
  query returns null. For every other message the page's parser decides.
\<close>

definition closeBtn :: "page \<Rightarrow> jsstring \<Rightarrow> bool" where
  "closeBtn s m \<longleftrightarrow>
     (if of_char CHR ''<'' \<notin> set m then True
      else if take 4 m = js ''<!--'' \<and> of_char CHR ''>'' \<notin> set (drop 4 m) then False
      else parser_finds_close s m)"

text \<open>
  \<open>showNotification\<close> removes the notification on display, if any, builds the new one
  from the template with the message interpolated as markup and appends it to the
  document; the timers that dismiss it later are left out. Then
  \<open>closeBtn.addEventListener\<close> throws a \<open>TypeError\<close> when the query for the close
  button returned null. The notification is recorded by the message interpolated and
  its type.
\<close>

definition showNotification :: "jsstring \<Rightarrow> notification_type \<Rightarrow> page \<Rightarrow> completion \<times> page" where
  "showNotification m t s =
     (let s1 = s\<lparr>notification := Some (m, t)\<rparr>
      in if closeBtn s m then (Returned, s1) else (Thrown, s1))"

text \<open>
  \<open>element.focus()\<close>: a disabled control is not focusable (the focusing steps of the
  HTML standard leave out elements that are disabled), so the call does nothing on it.
\<close>

definition focus :: "field \<Rightarrow> page \<Rightarrow> page" where
  "focus f s = (if disabled (form s f) then s else s\<lparr>activeElement := Some f\<rparr>)"

text \<open>\<open>new FormData(this.form)\<close>: the entries of the controls that are not disabled.\<close>

definition FormData :: "page \<Rightarrow> (field \<rightharpoonup> jsstring)" where
  "FormData s = (\<lambda>f. if disabled (form s f) then None else Some (field_value (form s f)))"

definition updateCounter :: "page \<Rightarrow> character_counter" where
  "updateCounter s =
     (let len = length (field_value (form s messageField));
          remaining = int MAX_MESSAGE_LENGTH - int len
      in \<lparr>counter_text = String_of len @ js ''/'' @ String_of MAX_MESSAGE_LENGTH @ js '' characters'',
          counter_color = (if remaining < 50 then js ''#dc3545''
                           else if remaining < 100 then js ''#ffc107''
                           else js ''#6c757d'')\<rparr>)"

text \<open>
  The constructor: a fresh validator, \<open>isSubmitting = false\<close>, and the character counter
  that \<open>bindEvents\<close> attaches to the message control, over the controls and the submit
  button found in the document, in a browser with the given parser.
\<close>

definition ContactFormHandler ::
    "(field \<Rightarrow> form_field) \<Rightarrow> button option \<Rightarrow> (jsstring \<Rightarrow> bool) \<Rightarrow> page" where
  "ContactFormHandler doc_form doc_button parser =
     (let s = \<lparr>errors = Map.empty, isValid = True, isSubmitting = False,
                submitButton = doc_button, form = doc_form, counter = None,
                notification = None, activeElement = None,
                in_flight = 0, submitForm_calls = 0, parser_finds_close = parser\<rparr>
      in s\<lparr>counter := Some (updateCounter s)\<rparr>)"

definition validateField :: "field \<Rightarrow> page \<Rightarrow> page" where
  "validateField f s =
     (let v = Some (trim (field_value (form s f)))
      in case f of
           nameField \<Rightarrow> snd (validateRequired f v (js ''Name'') s)
         | emailField \<Rightarrow> snd (and_then (validateRequired f v (js ''Email'')) (validateEmail f v) s)
         | subjectField \<Rightarrow> snd (validateRequired f v (js ''Subject'') s)
         | messageField \<Rightarrow> snd (and_then (validateRequired f v (js ''Message'')) (validateMessage f v) s))"

definition setSubmittingState :: "bool \<Rightarrow> page \<Rightarrow> page" where
  "setSubmittingState b s =
     s\<lparr>isSubmitting := b,
       submitButton := map_option (\<lambda>btn. btn\<lparr>button_disabled := b, class_loading := b,
                          button_text := (if b then js ''Sending...'' else js ''Send Message'')\<rparr>)
                        (submitButton s),
       form := (\<lambda>f. (form s f)\<lparr>disabled := b\<rparr>)\<rparr>"

definition clearValidationStates :: "page \<Rightarrow> page" where
  "clearValidationStates s =
     s\<lparr>form := (\<lambda>f. (form s f)
         \<lparr>aria_invalid := None,
          class_error := False,
          class_success := False,
          errorElement := map_option (\<lambda>e. e\<lparr>textContent := []\<rparr>) (errorElement (form s f))\<rparr>)\<rparr>"

definition focusFirstError :: "page \<Rightarrow> page" where
  "focusFirstError s =
     (case find (\<lambda>f. class_error (form s f)) form_fields of
        None \<Rightarrow> s
      | Some f \<Rightarrow> focus f s)"

text \<open>
  Modelled from the spec: the page's HTML, which fixes the default values that
  \<open>form.reset()\<close> restores, is not among the sources; after the spec ("clears the form's
  field values") every control's default value is the empty string.
\<close>

definition form_reset :: "page \<Rightarrow> page" where
  "form_reset s = s\<lparr>form := (\<lambda>f. (form s f)\<lparr>field_value := []\<rparr>)\<rparr>"

text \<open>A throw of \<open>showNotification\<close> leaves the rest of \<open>handleSuccess\<close> undone.\<close>

definition handleSuccess :: "page \<Rightarrow> completion \<times> page" where
  "handleSuccess s =
     (case showNotification MESSAGES_SUCCESS Success s of
        (Thrown, s1) \<Rightarrow> (Thrown, s1)
      | (Returned, s1) \<Rightarrow>
          (let s2 = form_reset s1;
               s3 = clearValidationStates s2;
               s4 = s3\<lparr>counter := map_option (\<lambda>c. c
                       \<lparr>counter_text := js ''0/'' @ String_of MAX_MESSAGE_LENGTH @ js '' characters'',
                        counter_color := js ''#6c757d''\<rparr>) (counter s3)\<rparr>
           in (Returned, focus (hd form_fields) s4)))"

definition handleError :: "jsstring \<Rightarrow> page \<Rightarrow> completion \<times> page" where
  "handleError m s = showNotification m Error s"

text \<open>
  What the promise of the submit operation settles with: a response object (its
  \<open>success\<close> flag and optional \<open>message\<close>, the message as the string the template
  interpolates), or a rejection with the error thrown. A promise that resolves with
  \<open>null\<close> or \<open>undefined\<close> makes \<open>response.success\<close> throw inside the \<open>try\<close> block
  before anything is shown, which is the path of a rejection.
\<close>

record response =
  success :: bool
  message :: "jsstring option"

datatype outcome = Resolved response | Rejected jsstring

text \<open>A pending submit operation: the time in milliseconds after which it settles, and how.\<close>

record submission =
  delay :: nat
  outcome :: outcome

text \<open>\<open>submitForm\<close> as the source has it: resolves with \<open>{ success: true }\<close> after 2000 ms.\<close>

definition submitForm :: "(field \<rightharpoonup> jsstring) \<Rightarrow> submission" where
  "submitForm formData = \<lparr>delay = 2000, outcome = Resolved \<lparr>success = True, message = None\<rparr>\<rparr>"

text \<open>
  \<open>handleSubmit\<close> is an async function. \<open>handleSubmit\<close> below is what a call runs at once,
  up to the \<open>await\<close> on the promise of \<open>submitForm\<close>; \<open>handleSubmit_resume\<close> is what runs
  when that promise settles: the rest of the \<open>try\<close> block, the \<open>catch\<close> block when
  the \<open>await\<close> or a call inside \<open>try\<close> has thrown, then the \<open>finally\<close> block. What
  is thrown outside \<open>try\<close>, or inside \<open>catch\<close>, rejects the promise that
  \<open>handleSubmit\<close> returns, which nothing reads, and ends the call where it is.
\<close>

definition handleSubmit :: "page \<Rightarrow> page" where
  "handleSubmit s =
     (if isSubmitting s then s
      else case validateForm (FormData s) s of
        (valid, s1) \<Rightarrow>
          if \<not> valid then
            (case showNotification MESSAGES_VALIDATION_ERROR Error s1 of
               (Returned, s2) \<Rightarrow> focusFirstError s2
             | (Thrown, s2) \<Rightarrow> s2)
          else let s2 = setSubmittingState True s1
               in s2\<lparr>in_flight := in_flight s2 + 1, submitForm_calls := submitForm_calls s2 + 1\<rparr>)"

definition handleSubmit_resume :: "outcome \<Rightarrow> page \<Rightarrow> page" where
  "handleSubmit_resume oc s =
     (let s1 = s\<lparr>in_flight := in_flight s - 1\<rparr>;
          tried = (case oc of
                     Resolved response \<Rightarrow>
                       if success response then handleSuccess s1
                       else handleError (if falsy (message response) then MESSAGES_ERROR
                                         else the (message response)) s1
                   | Rejected error \<Rightarrow> (Thrown, s1));
          caught = (case tried of
                      (Returned, s2) \<Rightarrow> (Returned, s2)
                    | (Thrown, s2) \<Rightarrow> handleError MESSAGES_NETWORK_ERROR s2)
      in setSubmittingState False (snd caught))"

text \<open>
  \<open>await\<close> has no timer of its own: the continuation runs when the promise settles, after
  the delay of the submit operation, whatever that delay is. The result is the time of
  the continuation and the page it leaves.
\<close>

definition await_submission :: "submission \<Rightarrow> page \<Rightarrow> nat \<times> page" where
  "await_submission p s = (delay p, handleSubmit_resume (outcome p) s)"

text \<open>
  What can happen to the page, one event at a time: the form is submitted; the pending
  submit operation settles; a control loses the focus or its debounce timer fires
  (both run \<open>validateField\<close>); the user types into a control (the input listener of the
  message control updates the counter).
\<close>

datatype event =
    Submit
  | Settle outcome
  | Validate field
  | Input field jsstring

definition input :: "field \<Rightarrow> jsstring \<Rightarrow> page \<Rightarrow> page" where
  "input f v s =
     (let s1 = s\<lparr>form := (form s)(f := (form s f)\<lparr>field_value := v\<rparr>)\<rparr>
      in if f = messageField then s1\<lparr>counter := map_option (\<lambda>c. updateCounter s1) (counter s1)\<rparr>
         else s1)"

fun step :: "event \<Rightarrow> page \<Rightarrow> page" where
  "step Submit s = handleSubmit s"
| "step (Settle oc) s = (if in_flight s = 0 then s else handleSubmit_resume oc s)"
| "step (Validate f) s = validateField f s"
| "step (Input f v) s = input f v s"

fun run :: "event list \<Rightarrow> page \<Rightarrow> page" where
  "run [] s = s"
| "run (e # es) s = run es (step e s)"

text \<open>
  Modelled from the spec: the email shape of the spec's words, "at least one \<open>@\<close>, at
  least one \<open>.\<close> after it, no whitespace".
\<close>

definition email_shaped :: "jsstring \<Rightarrow> bool" where
  "email_shaped v \<longleftrightarrow>
     of_char CHR ''@'' \<in> set v \<and>
     of_char CHR ''.'' \<in> set (dropWhile (\<lambda>c. c \<noteq> of_char CHR ''@'') v) \<and>
     \<not> (\<exists>c\<in>set v. is_whitespace c)"

section \<open>Auxiliary notions\<close>

text \<open>
  How the validation of one control leaves it: \<open>addError\<close> with the message it ends
  with, or \<open>removeError\<close>.
\<close>

definition mark :: "field \<Rightarrow> jsstring option \<Rightarrow> page \<Rightarrow> page" where
  "mark f e s = (case e of None \<Rightarrow> removeError f s | Some m \<Rightarrow> addError f m s)"

text \<open>
  A page as the browser loads it, for concrete runs: four empty, enabled controls, each
  with its error element, and the submit button; its parser finds the close button
  wherever \<open>closeBtn\<close> leaves the question to it.
\<close>

definition empty_control :: form_field where
  "empty_control =
     \<lparr>field_value = [], disabled = False, aria_invalid = None, class_error = False,
      class_success = False, errorElement = Some \<lparr>textContent = [], aria_live = None\<rparr>\<rparr>"

definition loaded_page :: page where
  "loaded_page = ContactFormHandler (\<lambda>f. empty_control)
     (Some \<lparr>button_disabled = False, class_loading = False, button_text = js ''Send Message''\<rparr>)
     (\<lambda>m. True)"

text \<open>
  The loaded page after the user has typed valid values into the four controls: the
  scenario name = "Jo", email = "jo@x.com", subject = "Hi", message = "x" twenty times.
\<close>

definition filled_page :: page where
  "filled_page =
     run [Input nameField (js ''Jo''), Input emailField (js ''jo@x.com''),
          Input subjectField (js ''Hi''), Input messageField (replicate 20 0x78)] loaded_page"

text \<open>
  The invariant of the submission lifecycle: a submit operation is pending exactly while
  \<open>isSubmitting\<close> is set, and then it is the only one.
\<close>

definition at_most_one :: "page \<Rightarrow> bool" where
  "at_most_one s \<longleftrightarrow> in_flight s = (if isSubmitting s then 1 else 0)"

section \<open>The matcher decides the language of the pattern\<close>

lemma in_conc: "w \<in> conc A B \<longleftrightarrow> (\<exists>u v. w = u @ v \<and> u \<in> A \<and> v \<in> B)"
  by (auto simp: conc_def)

lemma Nil_in_conc: "[] \<in> conc A B \<longleftrightarrow> [] \<in> A \<and> [] \<in> B"
  by (auto simp: conc_def)

lemma Cons_in_conc:
  "c # w \<in> conc A B \<longleftrightarrow>
     ([] \<in> A \<and> c # w \<in> B) \<or> (\<exists>u v. w = u @ v \<and> c # u \<in> A \<and> v \<in> B)"
  by (auto simp: conc_def Cons_eq_append_conv)

lemma star_Cons_split:
  "x \<in> star A \<Longrightarrow> x = c # w \<Longrightarrow> \<exists>u v. w = u @ v \<and> c # u \<in> A \<and> v \<in> star A"
proof (induction arbitrary: w rule: star.induct)
  case star_empty
  then show ?case by simp
next
  case (star_step u v)
  then show ?case by (cases u) auto
qed

lemma Cons_in_star:
  "c # w \<in> star A \<longleftrightarrow> (\<exists>u v. w = u @ v \<and> c # u \<in> A \<and> v \<in> star A)"
proof
  assume "c # w \<in> star A"
  then show "\<exists>u v. w = u @ v \<and> c # u \<in> A \<and> v \<in> star A"
    by (rule star_Cons_split) simp
next
  assume "\<exists>u v. w = u @ v \<and> c # u \<in> A \<and> v \<in> star A"
  then obtain u v where "w = u @ v" "c # u \<in> A" "v \<in> star A" by blast
  then show "c # w \<in> star A"
    using star_step [of "c # u" A v] by simp
qed

lemma nullable_lang: "nullable r \<longleftrightarrow> [] \<in> lang r"
  by (induction r) (auto simp: Nil_in_conc intro: star.intros)

lemma lang_deriv: "w \<in> lang (deriv c r) \<longleftrightarrow> c # w \<in> lang r"
proof (induction r arbitrary: w)
  case (Seq r s)
  have split: "w \<in> conc (lang (deriv c r)) (lang s) \<longleftrightarrow>
      (\<exists>u v. w = u @ v \<and> c # u \<in> lang r \<and> v \<in> lang s)"
    by (simp add: in_conc Seq.IH(1))
  show ?case
  proof (cases "nullable r")
    case True
    then show ?thesis
      using split Seq.IH(2) [of w] by (simp add: Cons_in_conc nullable_lang disj_commute)
  next
    case False
    then show ?thesis
      using split by (simp add: Cons_in_conc nullable_lang)
  qed
next
  case (Star r)
  have "w \<in> conc (lang (deriv c r)) (star (lang r)) \<longleftrightarrow>
      (\<exists>u v. w = u @ v \<and> c # u \<in> lang r \<and> v \<in> star (lang r))"
    by (simp add: in_conc Star.IH)
  then show ?case
    by (simp add: Cons_in_star)
qed auto

lemma test_lang: "test r s \<longleftrightarrow> s \<in> lang r"
  by (induction s arbitrary: r) (auto simp: nullable_lang lang_deriv)

section \<open>Strings\<close>

lemma all_dropWhile: "(\<forall>x\<in>set (dropWhile P v). P x) \<longleftrightarrow> (\<forall>x\<in>set v. P x)"
  by (induction v) auto

lemma trim_Nil_iff: "trim v = [] \<longleftrightarrow> (\<forall>c\<in>set v. is_whitespace c)"
  by (simp add: trim_def all_dropWhile)

lemma too_short_message:
  "js ''Message must be at least '' @ String_of MIN_MESSAGE_LENGTH @ js '' characters'' =
   js ''Message must be at least 10 characters''"
  by (simp add: MIN_MESSAGE_LENGTH_def js_def String_of.simps)

lemma too_long_message:
  "js ''Message must be less than '' @ String_of MAX_MESSAGE_LENGTH @ js '' characters'' =
   js ''Message must be less than 1000 characters''"
  by (simp add: MAX_MESSAGE_LENGTH_def js_def String_of.simps)

lemmas validator_defs =
  validateRequired_def validateEmail_def validateMessage_def and_then_def
  falsy_def addError_def removeError_def

lemmas eval_defs =
  js_def is_whitespace_def MIN_MESSAGE_LENGTH_def MAX_MESSAGE_LENGTH_def
  EMAIL_PATTERN_def Plus_def Chr_def not_space_at_def

section \<open>Every validation marks its control\<close>

lemma addError_removeError: "addError f m (removeError f s) = addError f m s"
  by (simp add: addError_def removeError_def option.map_comp comp_def)

lemma removeError_removeError: "removeError f (removeError f s) = removeError f s"
  by (simp add: removeError_def option.map_comp comp_def)

lemma errors_mark: "errors (mark f e s) = (errors s)(f := e)"
  by (cases e) (simp_all add: mark_def addError_def removeError_def)

lemma form_mark_other: "g \<noteq> f \<Longrightarrow> form (mark f e s) g = form s g"
  by (cases e) (simp_all add: mark_def addError_def removeError_def)

lemma field_value_mark: "field_value (form (mark f e s) g) = field_value (form s g)"
  by (cases e) (simp_all add: mark_def addError_def removeError_def)

lemma disabled_mark: "disabled (form (mark f e s) g) = disabled (form s g)"
  by (cases e) (simp_all add: mark_def addError_def removeError_def)

lemma mark_frame:
  "isSubmitting (mark f e s) = isSubmitting s"
  "in_flight (mark f e s) = in_flight s"
  "submitForm_calls (mark f e s) = submitForm_calls s"
  "submitButton (mark f e s) = submitButton s"
  "counter (mark f e s) = counter s"
  "notification (mark f e s) = notification s"
  "activeElement (mark f e s) = activeElement s"
  "parser_finds_close (mark f e s) = parser_finds_close s"
  by (cases e; simp add: mark_def addError_def removeError_def)+

lemma required_mark: "\<exists>e. \<forall>s. snd (validateRequired f v n s) = mark f e s"
proof (cases "falsy v \<or> trim (the v) = []")
  case True
  then have "\<forall>s. snd (validateRequired f v n s) = mark f (Some (n @ js '' is required'')) s"
    by (simp add: validateRequired_def mark_def)
  then show ?thesis ..
next
  case False
  then have "\<forall>s. snd (validateRequired f v n s) = mark f None s"
    by (simp add: validateRequired_def mark_def)
  then show ?thesis ..
qed

lemma blank_step:
  assumes "falsy v \<or> trim (the v) = []"
  shows "snd (and_then (validateRequired f v n) rule s) = addError f (n @ js '' is required'') s"
  using assms by (simp add: and_then_def validateRequired_def)

lemma email_mark:
  "\<exists>e. \<forall>s. snd (and_then (validateRequired f v n) (validateEmail f v) s) = mark f e s"
proof (cases "falsy v \<or> trim (the v) = []")
  case True
  then have "\<forall>s. snd (and_then (validateRequired f v n) (validateEmail f v) s) =
      mark f (Some (n @ js '' is required'')) s"
    by (simp add: blank_step mark_def)
  then show ?thesis ..
next
  case False
  show ?thesis
  proof (cases "test EMAIL_PATTERN (the v)")
    case True
    with False have "\<forall>s. snd (and_then (validateRequired f v n) (validateEmail f v) s) = mark f None s"
      by (simp add: validateRequired_def validateEmail_def and_then_def mark_def
          removeError_removeError)
    then show ?thesis ..
  next
    case no: False
    with False have "\<forall>s. snd (and_then (validateRequired f v n) (validateEmail f v) s) =
        mark f (Some (js ''Please enter a valid email address'')) s"
      by (simp add: validateRequired_def validateEmail_def and_then_def mark_def
          addError_removeError)
    then show ?thesis ..
  qed
qed

lemma message_mark:
  "\<exists>e. \<forall>s. snd (and_then (validateRequired f v n) (validateMessage f v) s) = mark f e s"
proof (cases "falsy v \<or> trim (the v) = []")
  case True
  then have "\<forall>s. snd (and_then (validateRequired f v n) (validateMessage f v) s) =
      mark f (Some (n @ js '' is required'')) s"
    by (simp add: blank_step mark_def)
  then show ?thesis ..
next
  case False
  consider (short) "length (the v) < MIN_MESSAGE_LENGTH"
    | (long) "\<not> length (the v) < MIN_MESSAGE_LENGTH" "length (the v) > MAX_MESSAGE_LENGTH"
    | (ok) "\<not> length (the v) < MIN_MESSAGE_LENGTH" "\<not> length (the v) > MAX_MESSAGE_LENGTH"
    by blast
  then show ?thesis
  proof cases
    case short
    with False have "\<forall>s. snd (and_then (validateRequired f v n) (validateMessage f v) s) =
        mark f (Some (js ''Message must be at least 10 characters'')) s"
      by (simp add: validateRequired_def validateMessage_def and_then_def mark_def
          addError_removeError too_short_message)
    then show ?thesis ..
  next
    case long
    with False have "\<forall>s. snd (and_then (validateRequired f v n) (validateMessage f v) s) =
        mark f (Some (js ''Message must be less than 1000 characters'')) s"
      by (simp add: validateRequired_def validateMessage_def and_then_def mark_def
          addError_removeError too_long_message)
    then show ?thesis ..
  next
    case ok
    with False have "\<forall>s. snd (and_then (validateRequired f v n) (validateMessage f v) s) = mark f None s"
      by (simp add: validateRequired_def validateMessage_def and_then_def mark_def
          removeError_removeError)
    then show ?thesis ..
  qed
qed

lemma validateForm_marks:
  "\<exists>e1 e2 e3 e4. \<forall>s. validateForm fd s =
     (let s' = mark messageField e4 (mark subjectField e3 (mark emailField e2 (mark nameField e1
                 (s\<lparr>errors := Map.empty, isValid := True\<rparr>))))
      in (isValid s', s'))"
proof -
  obtain e1 where 1:
    "\<forall>s. snd (validateRequired nameField (fd nameField) (js ''Name'') s) = mark nameField e1 s"
    using required_mark by blast
  obtain e2 where 2:
    "\<forall>s. snd (and_then (validateRequired emailField (fd emailField) (js ''Email''))
                       (validateEmail emailField (fd emailField)) s) = mark emailField e2 s"
    using email_mark by blast
  obtain e3 where 3:
    "\<forall>s. snd (validateRequired subjectField (fd subjectField) (js ''Subject'') s) =
         mark subjectField e3 s"
    using required_mark by blast
  obtain e4 where 4:
    "\<forall>s. snd (and_then (validateRequired messageField (fd messageField) (js ''Message''))
                       (validateMessage messageField (fd messageField)) s) = mark messageField e4 s"
    using message_mark by blast
  have "\<forall>s. validateForm fd s =
     (let s' = mark messageField e4 (mark subjectField e3 (mark emailField e2 (mark nameField e1
                 (s\<lparr>errors := Map.empty, isValid := True\<rparr>))))
      in (isValid s', s'))"
    by (simp add: validateForm_def 1 2 3 4 Let_def)
  then show ?thesis by blast
qed

lemma marks_idem:
  "mark messageField e4 (mark subjectField e3 (mark emailField e2 (mark nameField e1
     ((mark messageField e4 (mark subjectField e3 (mark emailField e2 (mark nameField e1
        (s\<lparr>errors := Map.empty, isValid := True\<rparr>)))))\<lparr>errors := Map.empty, isValid := True\<rparr>)))) =
   mark messageField e4 (mark subjectField e3 (mark emailField e2 (mark nameField e1
        (s\<lparr>errors := Map.empty, isValid := True\<rparr>))))"
  by (cases e1; cases e2; cases e3; cases e4)
     (simp_all add: mark_def addError_def removeError_def option.map_comp comp_def fun_eq_iff)

lemma isValid_mark: "isValid (mark f e s) = (e = None \<and> isValid s)"
  by (cases e) (simp_all add: mark_def addError_def removeError_def)

lemma errorElement_mark:
  "map_option (\<lambda>e. c) (errorElement (form (mark f e s) g)) =
   map_option (\<lambda>e. c) (errorElement (form s g))"
  by (cases e) (simp_all add: mark_def addError_def removeError_def option.map_comp comp_def)

lemma validateField_mark: "\<exists>e. validateField f s = mark f e s"
proof (cases f)
  case nameField
  then show ?thesis
    using required_mark [of nameField "Some (trim (field_value (form s f)))" "js ''Name''"]
    by (auto simp: validateField_def)
next
  case emailField
  then show ?thesis
    using email_mark [of emailField "Some (trim (field_value (form s f)))" "js ''Email''"]
    by (auto simp: validateField_def)
next
  case subjectField
  then show ?thesis
    using required_mark [of subjectField "Some (trim (field_value (form s f)))" "js ''Subject''"]
    by (auto simp: validateField_def)
next
  case messageField
  then show ?thesis
    using message_mark [of messageField "Some (trim (field_value (form s f)))" "js ''Message''"]
    by (auto simp: validateField_def)
qed

lemma validateForm_frame:
  "isSubmitting (snd (validateForm fd s)) = isSubmitting s"
  "in_flight (snd (validateForm fd s)) = in_flight s"
  "submitForm_calls (snd (validateForm fd s)) = submitForm_calls s"
  "submitButton (snd (validateForm fd s)) = submitButton s"
  "counter (snd (validateForm fd s)) = counter s"
  "notification (snd (validateForm fd s)) = notification s"
  "activeElement (snd (validateForm fd s)) = activeElement s"
  "field_value (form (snd (validateForm fd s)) f) = field_value (form s f)"
  "disabled (form (snd (validateForm fd s)) f) = disabled (form s f)"
  "parser_finds_close (snd (validateForm fd s)) = parser_finds_close s"
  using validateForm_marks [of fd]
  by (auto simp: Let_def mark_frame field_value_mark disabled_mark)

lemma errorElement_validateForm:
  "map_option (\<lambda>e. c) (errorElement (form (snd (validateForm fd s)) g)) =
   map_option (\<lambda>e. c) (errorElement (form s g))"
  using validateForm_marks [of fd]
  by (auto simp: Let_def errorElement_mark)

lemma validateForm_valid_errors:
  assumes "fst (validateForm fd s)"
  shows "errors (snd (validateForm fd s)) = Map.empty"
proof -
  obtain e1 e2 e3 e4 where *: "\<forall>s. validateForm fd s =
     (let s' = mark messageField e4 (mark subjectField e3 (mark emailField e2 (mark nameField e1
                 (s\<lparr>errors := Map.empty, isValid := True\<rparr>))))
      in (isValid s', s'))"
    using validateForm_marks by blast
  with assms have "e1 = None \<and> e2 = None \<and> e3 = None \<and> e4 = None"
    by (simp add: Let_def isValid_mark)
  with * show ?thesis
    by (simp add: Let_def errors_mark)
qed

section \<open>The pattern and the email shape of the specification\<close>

lemma star_Cls: "w \<in> star {[c] | c. P c} \<longleftrightarrow> (\<forall>c\<in>set w. P c)"
proof
  assume "w \<in> star {[c] | c. P c}"
  then show "\<forall>c\<in>set w. P c"
    by (induction rule: star.induct) auto
next
  assume "\<forall>c\<in>set w. P c"
  then show "w \<in> star {[c] | c. P c}"
  proof (induction w)
    case Nil
    show ?case by (rule star_empty)
  next
    case (Cons a w)
    then have "[a] \<in> {[c] | c. P c}" "w \<in> star {[c] | c. P c}" by auto
    then have "[a] @ w \<in> star {[c] | c. P c}" by (rule star_step)
    then show ?case by simp
  qed
qed

lemma lang_Plus_Cls: "w \<in> lang (Plus (Cls P)) \<longleftrightarrow> w \<noteq> [] \<and> (\<forall>c\<in>set w. P c)"
proof (cases w)
  case Nil
  then show ?thesis by (simp add: Plus_def Nil_in_conc)
next
  case (Cons a u)
  then show ?thesis by (auto simp: Plus_def Cons_in_conc star_Cls)
qed

lemma lang_Chr_Seq: "w \<in> lang (Seq (Chr a) r) \<longleftrightarrow> (\<exists>u. w = a # u \<and> u \<in> lang r)"
  by (auto simp: Chr_def in_conc)

text \<open>
  What \<open>EMAIL_PATTERN\<close> accepts: a local part, one \<open>@\<close>, and a domain with a dot in
  it, none of the three parts empty and none holding whitespace or a further \<open>@\<close>.
\<close>

lemma EMAIL_PATTERN_lang:
  "v \<in> lang EMAIL_PATTERN \<longleftrightarrow>
     (\<exists>l d t. v = l @ of_char CHR ''@'' # d @ of_char CHR ''.'' # t \<and>
        l \<noteq> [] \<and> d \<noteq> [] \<and> t \<noteq> [] \<and> (\<forall>c\<in>set (l @ d @ t). not_space_at c))"
proof -
  have "v \<in> lang EMAIL_PATTERN \<longleftrightarrow>
      (\<exists>l r1. v = l @ r1 \<and> l \<in> lang (Plus (Cls not_space_at)) \<and>
        (\<exists>r2. r1 = of_char CHR ''@'' # r2 \<and>
          (\<exists>d r3. r2 = d @ r3 \<and> d \<in> lang (Plus (Cls not_space_at)) \<and>
            (\<exists>t. r3 = of_char CHR ''.'' # t \<and> t \<in> lang (Plus (Cls not_space_at))))))"
    unfolding EMAIL_PATTERN_def
    by (simp only: lang.simps(5) [of "Plus (Cls not_space_at)"] in_conc lang_Chr_Seq)
  also have "\<dots> \<longleftrightarrow> (\<exists>l d t. v = l @ of_char CHR ''@'' # d @ of_char CHR ''.'' # t \<and>
        l \<noteq> [] \<and> d \<noteq> [] \<and> t \<noteq> [] \<and> (\<forall>c\<in>set (l @ d @ t). not_space_at c))"
    unfolding lang_Plus_Cls
  proof (intro iffI; elim exE conjE)
    fix l r1 r2 d r3 t
    assume "v = l @ r1" "r1 = of_char CHR ''@'' # r2" "r2 = d @ r3" "r3 = of_char CHR ''.'' # t"
      "l \<noteq> []" "d \<noteq> []" "t \<noteq> []"
      "\<forall>c\<in>set l. not_space_at c" "\<forall>c\<in>set d. not_space_at c" "\<forall>c\<in>set t. not_space_at c"
    then have "v = l @ of_char CHR ''@'' # d @ of_char CHR ''.'' # t \<and>
        l \<noteq> [] \<and> d \<noteq> [] \<and> t \<noteq> [] \<and> (\<forall>c\<in>set (l @ d @ t). not_space_at c)"
      by auto
    then show "\<exists>l d t. v = l @ of_char CHR ''@'' # d @ of_char CHR ''.'' # t \<and>
        l \<noteq> [] \<and> d \<noteq> [] \<and> t \<noteq> [] \<and> (\<forall>c\<in>set (l @ d @ t). not_space_at c)"
      by blast
  next
    fix l d t
    assume "v = l @ of_char CHR ''@'' # d @ of_char CHR ''.'' # t"
      "l \<noteq> []" "d \<noteq> []" "t \<noteq> []" "\<forall>c\<in>set (l @ d @ t). not_space_at c"
    then have "v = l @ (of_char CHR ''@'' # d @ of_char CHR ''.'' # t) \<and>
        (l \<noteq> [] \<and> (\<forall>c\<in>set l. not_space_at c)) \<and>
        (\<exists>r2. of_char CHR ''@'' # d @ of_char CHR ''.'' # t = of_char CHR ''@'' # r2 \<and>
          (\<exists>d' r3. r2 = d' @ r3 \<and> (d' \<noteq> [] \<and> (\<forall>c\<in>set d'. not_space_at c)) \<and>
            (\<exists>t'. r3 = of_char CHR ''.'' # t' \<and> t' \<noteq> [] \<and> (\<forall>c\<in>set t'. not_space_at c))))"
      by auto
    then show "\<exists>l r1. v = l @ r1 \<and> (l \<noteq> [] \<and> (\<forall>c\<in>set l. not_space_at c)) \<and>
        (\<exists>r2. r1 = of_char CHR ''@'' # r2 \<and>
          (\<exists>d r3. r2 = d @ r3 \<and> (d \<noteq> [] \<and> (\<forall>c\<in>set d. not_space_at c)) \<and>
            (\<exists>t. r3 = of_char CHR ''.'' # t \<and> t \<noteq> [] \<and> (\<forall>c\<in>set t. not_space_at c))))"
      by blast
  qed
  finally show ?thesis .
qed

lemma test_EMAIL_PATTERN_shaped:
  assumes "test EMAIL_PATTERN v"
  shows "email_shaped v"
proof -
  from assms obtain l d t where v: "v = l @ of_char CHR ''@'' # d @ of_char CHR ''.'' # t"
    and ok: "\<forall>c\<in>set (l @ d @ t). not_space_at c"
    by (auto simp: test_lang EMAIL_PATTERN_lang)
  have at: "\<not> is_whitespace (of_char CHR ''@'')" and dot: "\<not> is_whitespace (of_char CHR ''.'')"
    by (simp_all add: is_whitespace_def)
  from ok have l: "\<forall>c\<in>set l. c \<noteq> of_char CHR ''@''"
    by (simp add: not_space_at_def)
  then have "dropWhile (\<lambda>c. c \<noteq> of_char CHR ''@'') v = of_char CHR ''@'' # d @ of_char CHR ''.'' # t"
    unfolding v by simp
  moreover from ok have "\<forall>c\<in>set v. \<not> is_whitespace c"
    unfolding v using at dot by (auto simp: not_space_at_def)
  ultimately show ?thesis
    unfolding email_shaped_def by (simp add: v)
qed

section \<open>The submission lifecycle\<close>

lemma closeBtn_plain: "of_char CHR ''<'' \<notin> set m \<Longrightarrow> closeBtn s m"
  by (simp add: closeBtn_def)

lemma plain_messages:
  "closeBtn s MESSAGES_SUCCESS"
  "closeBtn s MESSAGES_ERROR"
  "closeBtn s MESSAGES_VALIDATION_ERROR"
  "closeBtn s MESSAGES_NETWORK_ERROR"
  by (rule closeBtn_plain,
      simp add: MESSAGES_SUCCESS_def MESSAGES_ERROR_def MESSAGES_VALIDATION_ERROR_def
        MESSAGES_NETWORK_ERROR_def js_def)+

lemma closeBtn_in_flight: "closeBtn (s\<lparr>in_flight := n\<rparr>) m = closeBtn s m"
  by (simp add: closeBtn_def)

lemma showNotification_shown:
  "closeBtn s m \<Longrightarrow> showNotification m t s = (Returned, s\<lparr>notification := Some (m, t)\<rparr>)"
  by (simp add: showNotification_def)

lemma showNotification_thrown:
  "\<not> closeBtn s m \<Longrightarrow> showNotification m t s = (Thrown, s\<lparr>notification := Some (m, t)\<rparr>)"
  by (simp add: showNotification_def)

lemma handleSuccess_returns:
  "handleSuccess s =
     (Returned,
      focus nameField
        ((clearValidationStates (form_reset (s\<lparr>notification := Some (MESSAGES_SUCCESS, Success)\<rparr>)))
           \<lparr>counter := map_option (\<lambda>c. c\<lparr>counter_text := js ''0/1000 characters'',
                                          counter_color := js ''#6c757d''\<rparr>) (counter s)\<rparr>))"
proof -
  have zero: "js ''0/'' @ String_of MAX_MESSAGE_LENGTH @ js '' characters'' = js ''0/1000 characters''"
    by (simp add: MAX_MESSAGE_LENGTH_def js_def String_of.simps)
  show ?thesis
    by (simp add: handleSuccess_def showNotification_shown plain_messages Let_def zero
        form_fields_def form_reset_def clearValidationStates_def)
qed

lemma handleSubmit_resume_success:
  "success r \<Longrightarrow>
   handleSubmit_resume (Resolved r) s =
     setSubmittingState False (snd (handleSuccess (s\<lparr>in_flight := in_flight s - 1\<rparr>)))"
  by (simp add: handleSubmit_resume_def Let_def handleSuccess_returns)

lemma handleSubmit_resume_failure:
  "\<not> success r \<Longrightarrow>
   handleSubmit_resume (Resolved r) s =
     setSubmittingState False
       (s\<lparr>in_flight := in_flight s - 1,
          notification :=
            Some (if falsy (message r) then MESSAGES_ERROR
                  else if closeBtn s (the (message r)) then the (message r)
                  else MESSAGES_NETWORK_ERROR, Error)\<rparr>)"
  by (simp add: handleSubmit_resume_def Let_def handleError_def showNotification_def
      plain_messages closeBtn_in_flight)

lemma handleSubmit_resume_rejected:
  "handleSubmit_resume (Rejected e) s =
     setSubmittingState False
       (s\<lparr>in_flight := in_flight s - 1,
          notification := Some (MESSAGES_NETWORK_ERROR, Error)\<rparr>)"
  by (simp add: handleSubmit_resume_def Let_def handleError_def showNotification_shown
      plain_messages)

lemma focus_frame:
  "isSubmitting (focus f s) = isSubmitting s"
  "in_flight (focus f s) = in_flight s"
  "submitForm_calls (focus f s) = submitForm_calls s"
  "form (focus f s) = form s"
  "notification (focus f s) = notification s"
  "submitButton (focus f s) = submitButton s"
  "errors (focus f s) = errors s"
  by (simp_all add: focus_def)

lemma focusFirstError_frame:
  "isSubmitting (focusFirstError s) = isSubmitting s"
  "in_flight (focusFirstError s) = in_flight s"
  "form (focusFirstError s) = form s"
  by (simp_all add: focusFirstError_def focus_frame split: option.splits)

lemma handleSubmit_valid:
  assumes "\<not> isSubmitting s" and "fst (validateForm (FormData s) s)"
  shows "handleSubmit s =
    (setSubmittingState True (snd (validateForm (FormData s) s)))
      \<lparr>in_flight := in_flight s + 1, submitForm_calls := submitForm_calls s + 1\<rparr>"
proof -
  obtain valid s1 where r: "validateForm (FormData s) s = (valid, s1)"
    by fastforce
  have "in_flight s1 = in_flight s" "submitForm_calls s1 = submitForm_calls s"
    using validateForm_frame(2,3) [of "FormData s" s] r by simp_all
  with assms r show ?thesis
    by (simp add: handleSubmit_def Let_def setSubmittingState_def)
qed


lemma handleSubmit_inv:
  assumes "at_most_one s"
  shows "at_most_one (handleSubmit s)"
proof -
  obtain valid s1 where r: "validateForm (FormData s) s = (valid, s1)"
    by fastforce
  have "isSubmitting s1 = isSubmitting s" "in_flight s1 = in_flight s"
    using validateForm_frame(1,2) [of "FormData s" s] r by simp_all
  with assms r show ?thesis
    by (simp add: handleSubmit_def at_most_one_def focusFirstError_frame
        showNotification_shown plain_messages setSubmittingState_def)
qed

lemma resume_inv:
  assumes "at_most_one s" and "in_flight s \<noteq> 0"
  shows "at_most_one (handleSubmit_resume oc s)"
proof (cases oc)
  case (Resolved r)
  with assms show ?thesis
    by (cases "success r")
       (simp_all add: handleSubmit_resume_success handleSubmit_resume_failure handleSuccess_returns
         at_most_one_def setSubmittingState_def focus_frame form_reset_def
         clearValidationStates_def split: if_splits)
next
  case (Rejected e)
  with assms show ?thesis
    by (simp add: handleSubmit_resume_rejected at_most_one_def setSubmittingState_def
        split: if_splits)
qed

lemma step_inv: "at_most_one s \<Longrightarrow> at_most_one (step e s)"
proof (cases e)
  case Submit
  then show "at_most_one s \<Longrightarrow> at_most_one (step e s)" by (simp add: handleSubmit_inv)
next
  case (Settle oc)
  then show "at_most_one s \<Longrightarrow> at_most_one (step e s)" by (simp add: resume_inv)
next
  case (Validate f)
  obtain e' where "validateField f s = mark f e' s" using validateField_mark by blast
  with Validate show "at_most_one s \<Longrightarrow> at_most_one (step e s)"
    by (simp add: at_most_one_def mark_frame)
next
  case (Input f v)
  then show "at_most_one s \<Longrightarrow> at_most_one (step e s)"
    by (simp add: at_most_one_def input_def Let_def)
qed

lemma run_inv: "at_most_one s \<Longrightarrow> at_most_one (run es s)"
  by (induction es arbitrary: s) (simp_all add: step_inv)

lemma init_inv: "at_most_one (ContactFormHandler g b p)"
  by (simp add: at_most_one_def ContactFormHandler_def Let_def)

lemma filled_page_idle: "\<not> isSubmitting filled_page"
  by (simp add: filled_page_def loaded_page_def ContactFormHandler_def input_def Let_def)

lemma filled_page_valid: "fst (validateForm (FormData filled_page) filled_page)"
  by (simp add: filled_page_def loaded_page_def ContactFormHandler_def input_def Let_def
      FormData_def empty_control_def validateForm_def validator_defs trim_Nil_iff eval_defs)

section \<open>The scenario with two failing fields\<close>

text \<open>
  C2. For the values name = "", email = "a@b.com", subject = "Hi", message = "short",
  \<open>validateForm\<close> returns false, the error set is exactly
  \<open>{name: "Name is required", message: "Message must be at least 10 characters"}\<close>, and
  the email and subject controls are marked success (and not error), whatever the page
  was before.
\<close>

theorem validateForm_two_failures:
  "(let r = validateForm [nameField \<mapsto> js '''', emailField \<mapsto> js ''a@b.com'',
                          subjectField \<mapsto> js ''Hi'', messageField \<mapsto> js ''short''] s
    in fst r = False \<and>
       errors (snd r) = [nameField \<mapsto> js ''Name is required'',
                         messageField \<mapsto> js ''Message must be at least 10 characters''] \<and>
       class_success (form (snd r) emailField) \<and> \<not> class_error (form (snd r) emailField) \<and>
       class_success (form (snd r) subjectField) \<and> \<not> class_error (form (snd r) subjectField))"
  by (simp add: validateForm_def validator_defs trim_Nil_iff eval_defs Let_def fun_eq_iff
      String_of.simps)

section \<open>An empty email reports the required error only\<close>

text \<open>
  C3. In \<open>validateForm\<close> the email-format rule runs only after the required check on
  the email value has passed: when the email value is missing, empty or made of
  whitespace only, the error set afterwards holds the required-field message for the
  email control, and so does its error element; the email-format message is not
  recorded.
\<close>

theorem blank_email_required_error_only:
  assumes "case fd emailField of None \<Rightarrow> True | Some v \<Rightarrow> \<forall>c\<in>set v. is_whitespace c"
  shows "errors (snd (validateForm fd s)) emailField = Some (js ''Email is required'') \<and>
         errors (snd (validateForm fd s)) emailField \<noteq> Some (js ''Please enter a valid email address'') \<and>
         map_option textContent (errorElement (form (snd (validateForm fd s)) emailField)) =
           map_option (\<lambda>e. js ''Email is required'') (errorElement (form s emailField))"
proof -
  have blank: "falsy (fd emailField) \<or> trim (the (fd emailField)) = []"
    using assms by (simp add: falsy_def trim_Nil_iff split: option.splits)
  obtain e1 where 1:
    "\<forall>s. snd (validateRequired nameField (fd nameField) (js ''Name'') s) = mark nameField e1 s"
    using required_mark by blast
  obtain e3 where 3:
    "\<forall>s. snd (validateRequired subjectField (fd subjectField) (js ''Subject'') s) =
         mark subjectField e3 s"
    using required_mark by blast
  obtain e4 where 4:
    "\<forall>s. snd (and_then (validateRequired messageField (fd messageField) (js ''Message''))
                       (validateMessage messageField (fd messageField)) s) = mark messageField e4 s"
    using message_mark by blast
  have "snd (validateForm fd s) =
      mark messageField e4 (mark subjectField e3
        (addError emailField (js ''Email'' @ js '' is required'')
          (mark nameField e1 (s\<lparr>errors := Map.empty, isValid := True\<rparr>))))"
    by (simp add: validateForm_def Let_def 1 3 4 blank_step [OF blank])
  then show ?thesis
    by (simp add: errors_mark form_mark_other addError_def option.map_comp comp_def js_def)
qed

theorem blank_email_required_error_only_witness:
  "(case [emailField \<mapsto> js ''  ''] emailField of None \<Rightarrow> True
    | Some v \<Rightarrow> \<forall>c\<in>set v. is_whitespace c) \<and>
   errors (snd (validateForm [emailField \<mapsto> js ''  ''] loaded_page)) emailField =
     Some (js ''Email is required'')"
proof -
  have h: "case [emailField \<mapsto> js ''  ''] emailField of None \<Rightarrow> True
           | Some v \<Rightarrow> \<forall>c\<in>set v. is_whitespace c"
    by (simp add: js_def is_whitespace_def)
  from blank_email_required_error_only [of "[emailField \<mapsto> js ''  '']" loaded_page] h
  show ?thesis by blast
qed

section \<open>Bounds on the message length\<close>

text \<open>
  C5. \<open>validateMessage\<close> returns true on every string of 10 to 1000 code units, the
  bounds included, and leaves no error for the control; a string of length 9 fails with
  "Message must be at least 10 characters" and one of length 1001 with
  "Message must be less than 1000 characters".
\<close>

theorem validateMessage_length_bounds:
  "(10 \<le> length m \<and> length m \<le> 1000 \<longrightarrow>
      fst (validateMessage f (Some m) s) \<and>
      errors (snd (validateMessage f (Some m) s)) f = None) \<and>
   (length m = 9 \<longrightarrow>
      \<not> fst (validateMessage f (Some m) s) \<and>
      errors (snd (validateMessage f (Some m) s)) f =
        Some (js ''Message must be at least 10 characters'')) \<and>
   (length m = 1001 \<longrightarrow>
      \<not> fst (validateMessage f (Some m) s) \<and>
      errors (snd (validateMessage f (Some m) s)) f =
        Some (js ''Message must be less than 1000 characters''))"
  by (auto simp: validateMessage_def falsy_def too_short_message too_long_message
        addError_def removeError_def)
     (simp_all add: MIN_MESSAGE_LENGTH_def MAX_MESSAGE_LENGTH_def)

theorem validateMessage_length_bounds_witness:
  "fst (validateMessage messageField (Some (replicate 10 0x78)) loaded_page) \<and>
   fst (validateMessage messageField (Some (replicate 1000 0x78)) loaded_page) \<and>
   errors (snd (validateMessage messageField (Some (replicate 9 0x78)) loaded_page)) messageField =
     Some (js ''Message must be at least 10 characters'') \<and>
   errors (snd (validateMessage messageField (Some (replicate 1001 0x78)) loaded_page)) messageField =
     Some (js ''Message must be less than 1000 characters'')"
  using validateMessage_length_bounds [of "replicate 10 0x78" messageField loaded_page]
    validateMessage_length_bounds [of "replicate 1000 0x78" messageField loaded_page]
    validateMessage_length_bounds [of "replicate 9 0x78" messageField loaded_page]
    validateMessage_length_bounds [of "replicate 1001 0x78" messageField loaded_page]
  by simp

section \<open>Validating twice\<close>

text \<open>
  C6. \<open>validateForm\<close> is idempotent: called a second time with the same values, on the
  page the first call left, it returns the same value and leaves the same error set;
  indeed it leaves the whole page as the first call did, since every call clears the
  error set and rebuilds it and the marking of each control.
\<close>

theorem validateForm_idempotent:
  "fst (validateForm fd (snd (validateForm fd s))) = fst (validateForm fd s) \<and>
   errors (snd (validateForm fd (snd (validateForm fd s)))) = errors (snd (validateForm fd s)) \<and>
   validateForm fd (snd (validateForm fd s)) = validateForm fd s"
proof -
  obtain e1 e2 e3 e4 where "\<forall>s. validateForm fd s =
     (let s' = mark messageField e4 (mark subjectField e3 (mark emailField e2 (mark nameField e1
                 (s\<lparr>errors := Map.empty, isValid := True\<rparr>))))
      in (isValid s', s'))"
    using validateForm_marks by blast
  then have "validateForm fd (snd (validateForm fd s)) = validateForm fd s"
    by (simp add: Let_def marks_idem)
  then show ?thesis by simp
qed

section \<open>Strings that are not email-shaped\<close>

text \<open>
  C4, as the specification states it, fails on a string of whitespace: the single space
  is not empty and not email-shaped, yet \<open>validateRequired\<close> returns false on it, since
  it trims the value before the test.
\<close>

theorem whitespace_fails_required:
  "js '' '' \<noteq> [] \<and> \<not> email_shaped (js '' '') \<and>
   \<not> fst (validateRequired emailField (Some (js '' '')) (js ''Email'') loaded_page)"
  by (simp add: js_def email_shaped_def validateRequired_def falsy_def trim_Nil_iff
      is_whitespace_def)

text \<open>
  C4, amended. For every non-empty string that does not match the email shape of the
  specification, \<open>validateEmail\<close> returns false and records the email-format message;
  \<open>validateRequired\<close> on the same string returns true exactly when the string holds a
  character that is not whitespace.
\<close>

theorem non_email_shaped_rejected:
  assumes "v \<noteq> []" and "\<not> email_shaped v"
  shows "\<not> fst (validateEmail f (Some v) s) \<and>
         errors (snd (validateEmail f (Some v) s)) f =
           Some (js ''Please enter a valid email address'') \<and>
         (fst (validateRequired f (Some v) n s) \<longleftrightarrow> (\<exists>c\<in>set v. \<not> is_whitespace c))"
proof -
  from assms(2) have "\<not> test EMAIL_PATTERN v"
    using test_EMAIL_PATTERN_shaped by blast
  with assms(1) show ?thesis
    by (simp add: validateEmail_def validateRequired_def falsy_def addError_def trim_Nil_iff)
qed

theorem non_email_shaped_rejected_witness:
  "js ''abc'' \<noteq> [] \<and> \<not> email_shaped (js ''abc'') \<and>
   \<not> fst (validateEmail emailField (Some (js ''abc'')) loaded_page) \<and>
   fst (validateRequired emailField (Some (js ''abc'')) (js ''Email'') loaded_page)"
proof -
  have h: "js ''abc'' \<noteq> []" "\<not> email_shaped (js ''abc'')"
    by (simp_all add: js_def email_shaped_def)
  from non_email_shaped_rejected [OF h, of emailField loaded_page "js ''Email''"] h
  show ?thesis
    by (simp add: js_def is_whitespace_def)
qed

section \<open>At most one submission in flight\<close>

text \<open>
  C1. While a submission is in flight (\<open>isSubmitting\<close> is true) a further call of
  \<open>handleSubmit\<close> returns at once and leaves the page as it is: no validation runs and
  \<open>submitForm\<close> is not called again. After every sequence of events on a freshly
  constructed handler at most one submit operation is pending, and one is pending
  exactly when \<open>isSubmitting\<close> is true.
\<close>

theorem no_reentrant_submit:
  "(isSubmitting s \<longrightarrow> handleSubmit s = s) \<and>
   in_flight (run es (ContactFormHandler g b p)) \<le> 1 \<and>
   (isSubmitting (run es (ContactFormHandler g b p)) \<longleftrightarrow>
      in_flight (run es (ContactFormHandler g b p)) = 1)"
  using run_inv [OF init_inv, of es g b p]
  by (simp add: handleSubmit_def at_most_one_def split: if_splits)

theorem no_reentrant_submit_witness:
  "isSubmitting (handleSubmit filled_page) \<and>
   handleSubmit (handleSubmit filled_page) = handleSubmit filled_page"
proof -
  have "isSubmitting (handleSubmit filled_page)"
    by (simp add: handleSubmit_valid filled_page_idle filled_page_valid setSubmittingState_def)
  with no_reentrant_submit [of "handleSubmit filled_page"] show ?thesis by simp
qed

section \<open>The success path\<close>

text \<open>
  C7. When all fields are valid and the submit operation resolves with success, the
  handler shows the success notification, clears the values of the controls and their
  error and success markers, the error set is empty, the character counter is reset and
  the controls are enabled again. The focus, however, stays where it was: \<open>handleSuccess\<close>
  calls \<open>focus()\<close> on the first control while \<open>setSubmittingState(true)\<close> still has it
  disabled, and the \<open>finally\<close> block enables it only afterwards.
\<close>

theorem success_path_keeps_focus:
  assumes "\<not> isSubmitting s" and "fst (validateForm (FormData s) s)"
  shows "(let s' = handleSubmit_resume (Resolved \<lparr>success = True, message = m\<rparr>) (handleSubmit s)
    in notification s' = Some (MESSAGES_SUCCESS, Success) \<and>
       (\<forall>f. field_value (form s' f) = []) \<and>
       (\<forall>f. \<not> class_error (form s' f) \<and> \<not> class_success (form s' f) \<and>
            aria_invalid (form s' f) = None \<and>
            map_option textContent (errorElement (form s' f)) =
              map_option (\<lambda>e. []) (errorElement (form s f))) \<and>
       errors s' = Map.empty \<and>
       counter s' = map_option (\<lambda>c. \<lparr>counter_text = js ''0/1000 characters'',
                                         counter_color = js ''#6c757d''\<rparr>) (counter s) \<and>
       (\<forall>f. \<not> disabled (form s' f)) \<and>
       \<not> isSubmitting s' \<and>
       activeElement s' = activeElement s)"
  by (cases "counter s")
     (simp_all add: handleSubmit_valid [OF assms] Let_def handleSubmit_resume_success
      handleSuccess_returns form_reset_def clearValidationStates_def setSubmittingState_def
      focus_def validateForm_valid_errors [OF assms(2)] validateForm_frame
      errorElement_validateForm option.map_comp comp_def)

theorem success_path_keeps_focus_witness:
  "\<not> isSubmitting filled_page \<and> fst (validateForm (FormData filled_page) filled_page) \<and>
   (let s' = handleSubmit_resume (Resolved \<lparr>success = True, message = None\<rparr>)
               (handleSubmit filled_page)
    in notification s' = Some (MESSAGES_SUCCESS, Success) \<and>
       field_value (form s' messageField) = [] \<and>
       errors s' = Map.empty \<and>
       activeElement s' = None \<and> activeElement s' \<noteq> Some nameField)"
proof -
  have none: "activeElement filled_page = None"
    by (simp add: filled_page_def loaded_page_def ContactFormHandler_def input_def Let_def)
  from success_path_keeps_focus [OF filled_page_idle filled_page_valid, of None]
    filled_page_idle filled_page_valid none
  show ?thesis
    by (simp add: Let_def)
qed

section \<open>The failure path\<close>



section \<open>No bound on the wait\<close>

text \<open>
  C9, as the specification states it, fails: \<open>SUBMISSION_TIMEOUT\<close> is never read, and a
  submit operation that resolves with success after 10001 ms, past the bound, still ends
  in the success notification.
\<close>

theorem late_success_is_success:
  "SUBMISSION_TIMEOUT <
     delay \<lparr>delay = 10001, outcome = Resolved \<lparr>success = True, message = None\<rparr>\<rparr> \<and>
   notification (snd (await_submission
       \<lparr>delay = 10001, outcome = Resolved \<lparr>success = True, message = None\<rparr>\<rparr>
       (handleSubmit filled_page))) = Some (MESSAGES_SUCCESS, Success)"
  by (simp add: SUBMISSION_TIMEOUT_def await_submission_def handleSubmit_resume_success
      handleSuccess_returns focus_def setSubmittingState_def form_reset_def
      clearValidationStates_def)

text \<open>
  C9, amended. After a successful validation pass \<open>handleSubmit\<close> awaits the outcome of
  the submit operation with no bound: the continuation runs when the operation settles,
  the page it leaves does not depend on how long that took, and a success is handled as
  a success after any delay. The \<open>submitForm\<close> of the source settles after 2000 ms,
  below \<open>SUBMISSION_TIMEOUT\<close>, with success.
\<close>

theorem await_has_no_timeout:
  "fst (await_submission \<lparr>delay = d, outcome = oc\<rparr> s) = d \<and>
   snd (await_submission \<lparr>delay = d, outcome = oc\<rparr> s) =
     snd (await_submission \<lparr>delay = d', outcome = oc\<rparr> s) \<and>
   notification (snd (await_submission
       \<lparr>delay = d, outcome = Resolved \<lparr>success = True, message = m\<rparr>\<rparr> s)) =
     Some (MESSAGES_SUCCESS, Success) \<and>
   delay (submitForm fd) < SUBMISSION_TIMEOUT \<and>
   notification (snd (await_submission (submitForm fd) s)) = Some (MESSAGES_SUCCESS, Success)"
  by (simp add: SUBMISSION_TIMEOUT_def await_submission_def handleSubmit_resume_success
      handleSuccess_returns focus_def setSubmittingState_def form_reset_def
      clearValidationStates_def submitForm_def)

section \<open>Early returns of the rule functions\<close>

text \<open>
  C10. Called directly with the empty string, \<open>validateEmail\<close> and \<open>validateMessage\<close>
  each return false by their early return and add no error: the error set, the
  \<open>isValid\<close> flag and the state of every control are as before, so the failing
  result comes with no recorded message for the field.
\<close>

theorem empty_value_early_return:
  "validateEmail f (Some []) s = (False, s) \<and> validateMessage f (Some []) s = (False, s)"
  by (simp add: validateEmail_def validateMessage_def falsy_def)

end
